theory Spec2Isabelle
  imports
    Main
    "HOL-Library.AList"
    "HOL-Library.Char_ord"
    "HOL-Library.List_Lexorder"
    "HOL-Library.Monad_Syntax"
begin

section \<open>The configuration subsystem of tikva (tikva/core/config.py)\<close>

text \<open>
  The module holds the key normalizer \<open>rename_keys_for_config\<close>, the pydantic model
  \<open>Configuration\<close> with its loader \<open>from_yaml\<close> and its saver \<open>save_user_settings\<close>,
  and the process-wide instance \<open>config = Configuration.from_yaml()\<close>. (Its second helper,
  \<open>remove_default_prefix\<close>, is called by neither the loader nor the saver and is left
  out.) The embedding follows the source function by function. Exceptions are values of
  the type \<open>error\<close>; the file system and the logger are an explicit \<open>world\<close> that every
  effectful function takes and returns.
\<close>

subsection \<open>Python values\<close>

text \<open>
  The values a YAML file or a caller can supply for a setting: \<open>None\<close>, booleans,
  integers, strings, and lists and tuples of those. A tuple is a value that a caller can
  pass and that \<open>yaml.safe_load\<close> never returns. Floats, byte strings, dates, other
  Python objects and mappings nested inside a value are outside this model. A string is
  the list of its UTF-8 bytes. A \<open>dict\<close> is an association list in insertion order, so
  that the order in which a comprehension overwrites colliding keys is visible.
\<close>

datatype pyval =
  PNone | PBool bool | PInt int | PStr string | PList "pyval list" | PTuple "pyval list"

type_synonym pydict = "(pyval \<times> pyval) list"

type_synonym kwargs = "(string \<times> pyval) list"

datatype error =
  YAMLError | UnicodeDecodeError | OSError | AttributeError | ValidationError "string list"

subsection \<open>The surroundings of the module\<close>

text \<open>
  What the module takes from its surroundings: the directory that
  \<open>get_home_app_path()\<close> returns, the codec identifiers of the type
  \<open>tikva.types.VideoCodecs\<close> (its declaration is not part of the sources at hand),
  Python's \<open>str.upper\<close> (a table over all of Unicode), and the two readers of strings of
  the validation library.
\<close>

record env =
  home_app_path :: string
  VideoCodecs :: "string list"
  str_upper :: "string \<Rightarrow> string"
  str_as_int :: "string \<Rightarrow> int option"
  str_as_bool :: "string \<Rightarrow> bool option"

text \<open>
  \<open>str.startswith\<close>. The prefix the module tests for is ASCII, so the test on the bytes
  is the test on the characters.
\<close>

definition startswith :: "string \<Rightarrow> string \<Rightarrow> bool" where
  "startswith s prefix = (take (length prefix) s = prefix)"

subsection \<open>rename_keys_for_config\<close>

text \<open>
  \<^verbatim>\<open>
  return {
      f"DEFAULT_{key.upper()}" if not key.startswith("DEFAULT_") else key: value
      for key, value in config_dict.items()
  }
  \<close>
  \<open>rename_key\<close> is the key expression of the comprehension. The comprehension inserts the
  items one after the other, a later item overwriting the value of an equal new key
  (\<open>AList.update\<close> is \<open>d[k] = v\<close>). The condition is evaluated first, and a key that is
  not a string has no \<open>startswith\<close>: the call raises \<open>AttributeError\<close>.
\<close>

definition rename_key :: "env \<Rightarrow> string \<Rightarrow> string" where
  "rename_key e key =
     (if \<not> startswith key ''DEFAULT_'' then ''DEFAULT_'' @ str_upper e key else key)"

fun rename_items :: "env \<Rightarrow> pydict \<Rightarrow> kwargs \<Rightarrow> error + kwargs" where
  "rename_items e [] acc = Inr acc"
| "rename_items e ((PStr key, v) # rest) acc =
     rename_items e rest (AList.update (rename_key e key) v acc)"
| "rename_items e ((_, v) # rest) acc = Inl AttributeError"

definition rename_keys_for_config :: "env \<Rightarrow> pydict \<Rightarrow> error + kwargs" where
  "rename_keys_for_config e config_dict = rename_items e config_dict []"

subsection \<open>Field validation\<close>

text \<open>
  The model declares its fields by type annotation only; the validation of a supplied
  value is pydantic's, in its default (lax) mode. Each validator returns \<open>None\<close> where
  pydantic reports an error for the field.

  \<^item> \<open>bool\<close>: a boolean; the integers 0 and 1; a string that the library reads as a
    boolean.
  \<^item> \<open>int\<close>: an integer; a boolean (\<open>True\<close> is 1); a string that the library reads as
    an integer.
  \<^item> \<open>str\<close>: a string only.
  \<^item> \<open>Literal[...]\<close>: a string equal to one of the listed ones.
  \<^item> \<open>List[int]\<close>: a list or a tuple whose every element validates as \<open>int\<close>; the
    validated value is a list.
  \<^item> \<open>Optional[T]\<close>: \<open>None\<close>, or a value that validates as \<open>T\<close>.

  Which strings the library reads as an integer or as a boolean differs between its
  versions, so the two readers are arguments of the validators (\<open>str_as_int\<close> and
  \<open>str_as_bool\<close> of the surroundings).
\<close>

fun validate_bool :: "(string \<Rightarrow> bool option) \<Rightarrow> pyval \<Rightarrow> bool option" where
  "validate_bool read_bool (PBool b) = Some b"
| "validate_bool read_bool (PInt i) =
     (if i = 0 then Some False else if i = 1 then Some True else None)"
| "validate_bool read_bool (PStr s) = read_bool s"
| "validate_bool read_bool _ = None"

fun validate_int :: "(string \<Rightarrow> int option) \<Rightarrow> pyval \<Rightarrow> int option" where
  "validate_int read_int (PInt i) = Some i"
| "validate_int read_int (PBool b) = Some (if b then 1 else 0)"
| "validate_int read_int (PStr s) = read_int s"
| "validate_int read_int _ = None"

fun validate_str :: "pyval \<Rightarrow> string option" where
  "validate_str (PStr s) = Some s"
| "validate_str _ = None"

fun validate_literal :: "string list \<Rightarrow> pyval \<Rightarrow> string option" where
  "validate_literal allowed (PStr s) = (if s \<in> set allowed then Some s else None)"
| "validate_literal allowed _ = None"

fun validate_list_int :: "(string \<Rightarrow> int option) \<Rightarrow> pyval \<Rightarrow> int list option" where
  "validate_list_int read_int (PList vs) = those (map (validate_int read_int) vs)"
| "validate_list_int read_int (PTuple vs) = those (map (validate_int read_int) vs)"
| "validate_list_int read_int _ = None"

fun validate_optional :: "(pyval \<Rightarrow> 'a option) \<Rightarrow> pyval \<Rightarrow> 'a option option" where
  "validate_optional validator PNone = Some None"
| "validate_optional validator v = map_option Some (validator v)"

subsection \<open>The model Configuration\<close>

record configuration =
  ENABLE_REALSENSE :: bool
  ENABLE_CAMERAS :: bool
  MAX_OPENCV_INDEX :: int
  MAIN_CAMERA_ID :: "int option"
  ENABLE_CAN :: bool
  MAX_CAN_INTERFACES :: int
  DEFAULT_DATASET_NAME :: string
  DEFAULT_FREQ :: int
  DEFAULT_EPISODE_FORMAT :: string
  DEFAULT_VIDEO_CODEC :: string
  DEFAULT_VIDEO_SIZE :: "int list"
  DEFAULT_TASK_INSTRUCTION :: string
  DEFAULT_CAMERAS_TO_DISABLE :: "int list option"
  DEFAULT_CAMERAS_TO_RECORD :: "int list option"

text \<open>The declared defaults (what \<open>cls()\<close> holds).\<close>

definition defaults :: configuration where
  "defaults =
     \<lparr>ENABLE_REALSENSE = True,
      ENABLE_CAMERAS = True,
      MAX_OPENCV_INDEX = 10,
      MAIN_CAMERA_ID = None,
      ENABLE_CAN = False,
      MAX_CAN_INTERFACES = 4,
      DEFAULT_DATASET_NAME = ''example_dataset'',
      DEFAULT_FREQ = 30,
      DEFAULT_EPISODE_FORMAT = ''lerobot_v2.1'',
      DEFAULT_VIDEO_CODEC = ''avc1'',
      DEFAULT_VIDEO_SIZE = [320, 240],
      DEFAULT_TASK_INSTRUCTION = ''None'',
      DEFAULT_CAMERAS_TO_DISABLE = None,
      DEFAULT_CAMERAS_TO_RECORD = None\<rparr>"

text \<open>\<open>Configuration.model_fields.keys()\<close>, in declaration order.\<close>

definition model_fields :: "string list" where
  "model_fields =
     [''ENABLE_REALSENSE'', ''ENABLE_CAMERAS'', ''MAX_OPENCV_INDEX'', ''MAIN_CAMERA_ID'',
      ''ENABLE_CAN'', ''MAX_CAN_INTERFACES'',
      ''DEFAULT_DATASET_NAME'', ''DEFAULT_FREQ'', ''DEFAULT_EPISODE_FORMAT'',
      ''DEFAULT_VIDEO_CODEC'', ''DEFAULT_VIDEO_SIZE'', ''DEFAULT_TASK_INSTRUCTION'',
      ''DEFAULT_CAMERAS_TO_DISABLE'', ''DEFAULT_CAMERAS_TO_RECORD'']"

definition EPISODE_FORMATS :: "string list" where
  "EPISODE_FORMATS = [''lerobot_v2.1'', ''lerobot_v2'', ''json'']"

text \<open>
  One field of the constructor: the declared default when the data has no item under the
  field's name (a default is not validated), else the validated value, \<open>None\<close> when the
  validation fails. \<open>field_error\<close> is the entry the field adds to the error report.
\<close>

definition validate_field ::
  "kwargs \<Rightarrow> string \<Rightarrow> (pyval \<Rightarrow> 'a option) \<Rightarrow> 'a \<Rightarrow> 'a option" where
  "validate_field data name validator dflt =
     (case map_of data name of None \<Rightarrow> Some dflt | Some v \<Rightarrow> validator v)"

definition field_error :: "kwargs \<Rightarrow> string \<Rightarrow> (pyval \<Rightarrow> 'a option) \<Rightarrow> string list" where
  "field_error data name validator =
     (case map_of data name of
        None \<Rightarrow> []
      | Some v \<Rightarrow> (case validator v of None \<Rightarrow> [name] | Some x \<Rightarrow> []))"

text \<open>
  \<open>Configuration(**data)\<close> and \<open>Configuration.model_validate(data)\<close>. The fields are
  validated in declaration order. With \<open>extra = "ignore"\<close> an item under any other name
  is never looked at. When some field fails, a \<open>ValidationError\<close> is raised that lists
  every failing field.
\<close>

definition validated_fields :: "env \<Rightarrow> kwargs \<Rightarrow> configuration option" where
  "validated_fields e data = do {
     enable_realsense \<leftarrow>
       validate_field data ''ENABLE_REALSENSE'' (validate_bool (str_as_bool e)) True;
     enable_cameras \<leftarrow>
       validate_field data ''ENABLE_CAMERAS'' (validate_bool (str_as_bool e)) True;
     max_opencv_index \<leftarrow>
       validate_field data ''MAX_OPENCV_INDEX'' (validate_int (str_as_int e)) 10;
     main_camera_id \<leftarrow>
       validate_field data ''MAIN_CAMERA_ID''
         (validate_optional (validate_int (str_as_int e))) None;
     enable_can \<leftarrow>
       validate_field data ''ENABLE_CAN'' (validate_bool (str_as_bool e)) False;
     max_can_interfaces \<leftarrow>
       validate_field data ''MAX_CAN_INTERFACES'' (validate_int (str_as_int e)) 4;
     dataset_name \<leftarrow>
       validate_field data ''DEFAULT_DATASET_NAME'' validate_str ''example_dataset'';
     freq \<leftarrow>
       validate_field data ''DEFAULT_FREQ'' (validate_int (str_as_int e)) 30;
     episode_format \<leftarrow>
       validate_field data ''DEFAULT_EPISODE_FORMAT'' (validate_literal EPISODE_FORMATS)
         ''lerobot_v2.1'';
     video_codec \<leftarrow>
       validate_field data ''DEFAULT_VIDEO_CODEC'' (validate_literal (VideoCodecs e)) ''avc1'';
     video_size \<leftarrow>
       validate_field data ''DEFAULT_VIDEO_SIZE'' (validate_list_int (str_as_int e))
         [320, 240];
     task_instruction \<leftarrow>
       validate_field data ''DEFAULT_TASK_INSTRUCTION'' validate_str ''None'';
     cameras_to_disable \<leftarrow>
       validate_field data ''DEFAULT_CAMERAS_TO_DISABLE''
         (validate_optional (validate_list_int (str_as_int e))) None;
     cameras_to_record \<leftarrow>
       validate_field data ''DEFAULT_CAMERAS_TO_RECORD''
         (validate_optional (validate_list_int (str_as_int e))) None;
     Some
       \<lparr>ENABLE_REALSENSE = enable_realsense,
        ENABLE_CAMERAS = enable_cameras,
        MAX_OPENCV_INDEX = max_opencv_index,
        MAIN_CAMERA_ID = main_camera_id,
        ENABLE_CAN = enable_can,
        MAX_CAN_INTERFACES = max_can_interfaces,
        DEFAULT_DATASET_NAME = dataset_name,
        DEFAULT_FREQ = freq,
        DEFAULT_EPISODE_FORMAT = episode_format,
        DEFAULT_VIDEO_CODEC = video_codec,
        DEFAULT_VIDEO_SIZE = video_size,
        DEFAULT_TASK_INSTRUCTION = task_instruction,
        DEFAULT_CAMERAS_TO_DISABLE = cameras_to_disable,
        DEFAULT_CAMERAS_TO_RECORD = cameras_to_record\<rparr>
   }"

definition validation_errors :: "env \<Rightarrow> kwargs \<Rightarrow> string list" where
  "validation_errors e data =
     field_error data ''ENABLE_REALSENSE'' (validate_bool (str_as_bool e)) @
     field_error data ''ENABLE_CAMERAS'' (validate_bool (str_as_bool e)) @
     field_error data ''MAX_OPENCV_INDEX'' (validate_int (str_as_int e)) @
     field_error data ''MAIN_CAMERA_ID'' (validate_optional (validate_int (str_as_int e))) @
     field_error data ''ENABLE_CAN'' (validate_bool (str_as_bool e)) @
     field_error data ''MAX_CAN_INTERFACES'' (validate_int (str_as_int e)) @
     field_error data ''DEFAULT_DATASET_NAME'' validate_str @
     field_error data ''DEFAULT_FREQ'' (validate_int (str_as_int e)) @
     field_error data ''DEFAULT_EPISODE_FORMAT'' (validate_literal EPISODE_FORMATS) @
     field_error data ''DEFAULT_VIDEO_CODEC'' (validate_literal (VideoCodecs e)) @
     field_error data ''DEFAULT_VIDEO_SIZE'' (validate_list_int (str_as_int e)) @
     field_error data ''DEFAULT_TASK_INSTRUCTION'' validate_str @
     field_error data ''DEFAULT_CAMERAS_TO_DISABLE''
       (validate_optional (validate_list_int (str_as_int e))) @
     field_error data ''DEFAULT_CAMERAS_TO_RECORD''
       (validate_optional (validate_list_int (str_as_int e)))"

definition Configuration_init :: "env \<Rightarrow> kwargs \<Rightarrow> error + configuration" where
  "Configuration_init e data =
     (case validated_fields e data of
        Some instance \<Rightarrow> Inr instance
      | None \<Rightarrow> Inl (ValidationError (validation_errors e data)))"

subsection \<open>Files, YAML and the log\<close>

text \<open>
  The contents of a file are kept as what \<open>yaml.safe_load\<close> makes of them: an empty
  file (which loads as \<open>None\<close>), bytes that are not UTF-8 text (reading them raises
  \<open>UnicodeDecodeError\<close>), a text that is not YAML (\<open>YAMLError\<close>), or the YAML text of a
  document, which is a mapping or any other value. The text of a tuple carries the tag
  \<open>!!python/tuple\<close>, which \<open>yaml.safe_load\<close> refuses with a \<open>ConstructorError\<close>, a
  \<open>YAMLError\<close>: only a document without tuples loads.
\<close>

datatype loaded = Mapping pydict | Other pyval

datatype file_contents = Empty | Undecodable | Unparsable | Yaml loaded

fun yaml_safe :: "pyval \<Rightarrow> bool" where
  "yaml_safe (PTuple vs) = False"
| "yaml_safe (PList vs) = list_all yaml_safe vs"
| "yaml_safe v = True"

fun safe_document :: "loaded \<Rightarrow> bool" where
  "safe_document (Mapping d) = list_all (\<lambda>(key, v). yaml_safe key \<and> yaml_safe v) d"
| "safe_document (Other v) = yaml_safe v"

fun safe_load :: "file_contents \<Rightarrow> error + loaded" where
  "safe_load Empty = Inr (Other PNone)"
| "safe_load Undecodable = Inl UnicodeDecodeError"
| "safe_load Unparsable = Inl YAMLError"
| "safe_load (Yaml document) = (if safe_document document then Inr document else Inl YAMLError)"

text \<open>
  The world is the file system and the messages given to \<open>logger.error\<close>. A path has
  contents or does not exist; \<open>writable\<close> tells whether a file can be created at a path
  (its directory exists and can be written to). The directory of the default path is made
  by \<open>get_home_app_path()\<close> when the module is imported, so a file can always be opened
  for writing there.
\<close>

datatype log_entry = ErrorLoading | ErrorSaving error

record world =
  files :: "string \<rightharpoonup> file_contents"
  writable :: "string \<Rightarrow> bool"
  log :: "log_entry list"

text \<open>
  \<open>yaml.dump\<close> of a dictionary with string keys: the YAML text of that dictionary. The
  dumper writes the keys in sorted order (\<open>sort_keys\<close> is on by default), and a tuple
  with its tag.
\<close>

definition yaml_dump :: "kwargs \<Rightarrow> file_contents" where
  "yaml_dump d = Yaml (Mapping (map (\<lambda>(key, v). (PStr key, v)) (sort_key fst d)))"

definition YAML_CONFIG_PATH :: "env \<Rightarrow> string" where
  "YAML_CONFIG_PATH e = home_app_path e @ ''/config.yaml''"

definition can_create :: "env \<Rightarrow> world \<Rightarrow> string \<Rightarrow> bool" where
  "can_create e w path = (path = YAML_CONFIG_PATH e \<or> writable w path)"

subsection \<open>Configuration.from_yaml\<close>

text \<open>
  \<^verbatim>\<open>
  if config_path is None:
      config_path = YAML_CONFIG_PATH
  if not Path(config_path).exists():
      with open(config_path, "w") as file:
          file.write("")
      return cls()
  with open(config_path, "r") as file:
      try:
          config = yaml.safe_load(file)
      except yaml.YAMLError as e:
          logger.error(...)
          config = None
  if config is None or not isinstance(config, dict):
      config = {}
  config = rename_keys_for_config(config)
  return cls(**config)
  \<close>
  \<open>from_loaded\<close> is the part after the \<open>with\<close> block. Only \<open>YAMLError\<close> is caught.
  What else the reading raises, and what \<open>rename_keys_for_config\<close> or the constructor
  raise, leaves the function: the result is \<open>Inl\<close> of that exception. So does the
  \<open>OSError\<close> of \<open>open(config_path, "w")\<close> when no file can be created at the path; no
  file is made then.
\<close>

definition from_loaded :: "env \<Rightarrow> loaded \<Rightarrow> world \<Rightarrow> (error + configuration) \<times> world" where
  "from_loaded e config w =
     (let config = (case config of Mapping d \<Rightarrow> d | Other v \<Rightarrow> [])
      in case rename_keys_for_config e config of
           Inl err \<Rightarrow> (Inl err, w)
         | Inr config \<Rightarrow> (Configuration_init e config, w))"

definition from_yaml ::
  "env \<Rightarrow> string option \<Rightarrow> world \<Rightarrow> (error + configuration) \<times> world" where
  "from_yaml e config_path w =
     (let config_path = (case config_path of None \<Rightarrow> YAML_CONFIG_PATH e | Some p \<Rightarrow> p) in
      case files w config_path of
        None \<Rightarrow>
          if can_create e w config_path
          then (Configuration_init e [], w\<lparr>files := (files w)(config_path \<mapsto> Empty)\<rparr>)
          else (Inl OSError, w)
      | Some contents \<Rightarrow>
          (case safe_load contents of
             Inr config \<Rightarrow> from_loaded e config w
           | Inl YAMLError \<Rightarrow>
               from_loaded e (Other PNone) (w\<lparr>log := log w @ [ErrorLoading]\<rparr>)
           | Inl err \<Rightarrow> (Inl err, w)))"

subsection \<open>Configuration.save_user_settings\<close>

text \<open>
  \<^verbatim>\<open>
  try:
      user_settings = rename_keys_for_config(user_settings)
      new_config = Configuration.model_validate(user_settings)
  except Exception as e:
      logger.error(f"Error saving user settings: {e}")
      return
  with open(YAML_CONFIG_PATH, "w") as file:
      yaml.dump(user_settings, file)
  for field in Configuration.model_fields.keys():
      setattr(self, field, getattr(new_config, field))
  \<close>
  The first statement of the \<open>try\<close> block rebinds \<open>user_settings\<close>, so the dictionary
  that is dumped is the renamed one. \<open>copy_fields\<close> is the final loop, one assignment for
  each name of \<open>model_fields\<close>. The file that is opened is the one at the default path,
  whatever path the instance was loaded from. The function returns the instance \<open>self\<close>
  as the call leaves it, and the world.
\<close>

definition copy_fields :: "configuration \<Rightarrow> configuration \<Rightarrow> configuration" where
  "copy_fields self new_config =
     self\<lparr>ENABLE_REALSENSE := ENABLE_REALSENSE new_config,
          ENABLE_CAMERAS := ENABLE_CAMERAS new_config,
          MAX_OPENCV_INDEX := MAX_OPENCV_INDEX new_config,
          MAIN_CAMERA_ID := MAIN_CAMERA_ID new_config,
          ENABLE_CAN := ENABLE_CAN new_config,
          MAX_CAN_INTERFACES := MAX_CAN_INTERFACES new_config,
          DEFAULT_DATASET_NAME := DEFAULT_DATASET_NAME new_config,
          DEFAULT_FREQ := DEFAULT_FREQ new_config,
          DEFAULT_EPISODE_FORMAT := DEFAULT_EPISODE_FORMAT new_config,
          DEFAULT_VIDEO_CODEC := DEFAULT_VIDEO_CODEC new_config,
          DEFAULT_VIDEO_SIZE := DEFAULT_VIDEO_SIZE new_config,
          DEFAULT_TASK_INSTRUCTION := DEFAULT_TASK_INSTRUCTION new_config,
          DEFAULT_CAMERAS_TO_DISABLE := DEFAULT_CAMERAS_TO_DISABLE new_config,
          DEFAULT_CAMERAS_TO_RECORD := DEFAULT_CAMERAS_TO_RECORD new_config\<rparr>"

definition save_user_settings ::
  "env \<Rightarrow> configuration \<Rightarrow> pydict \<Rightarrow> world \<Rightarrow> configuration \<times> world" where
  "save_user_settings e self user_settings w =
     (case rename_keys_for_config e user_settings of
        Inl err \<Rightarrow> (self, w\<lparr>log := log w @ [ErrorSaving err]\<rparr>)
      | Inr user_settings \<Rightarrow>
          (case Configuration_init e user_settings of
             Inl err \<Rightarrow> (self, w\<lparr>log := log w @ [ErrorSaving err]\<rparr>)
           | Inr new_config \<Rightarrow>
               (copy_fields self new_config,
                w\<lparr>files := (files w)(YAML_CONFIG_PATH e \<mapsto> yaml_dump user_settings)\<rparr>)))"

subsection \<open>Example inputs\<close>

text \<open>
  Example surroundings for the concrete inputs below. \<open>ascii_upper\<close> is \<open>str.upper\<close>
  on ASCII text. \<open>decimal_int\<close> reads decimal digits with an optional sign, up to the
  library's limit of 4300 characters, and \<open>bool_word\<close> reads the words
  \<open>0 off f false n no 1 on t true y yes\<close> in any letter case; the library reads these
  strings so, and reads further spellings that these two readers refuse. The general
  theorems hold for every \<open>str_upper\<close>, \<open>str_as_int\<close> and \<open>str_as_bool\<close>.
\<close>

definition upper_char :: "char \<Rightarrow> char" where
  "upper_char c =
     (let n = (of_char c :: nat) in if 97 \<le> n \<and> n \<le> 122 then char_of (n - 32) else c)"

definition lower_char :: "char \<Rightarrow> char" where
  "lower_char c =
     (let n = (of_char c :: nat) in if 65 \<le> n \<and> n \<le> 90 then char_of (n + 32) else c)"

definition ascii_upper :: "string \<Rightarrow> string" where
  "ascii_upper s = map upper_char s"

definition ascii_lower :: "string \<Rightarrow> string" where
  "ascii_lower s = map lower_char s"

definition digit_of :: "char \<Rightarrow> nat option" where
  "digit_of c =
     (let n = (of_char c :: nat) in if 48 \<le> n \<and> n \<le> 57 then Some (n - 48) else None)"

fun digits_value :: "string \<Rightarrow> nat \<Rightarrow> nat option" where
  "digits_value [] acc = Some acc"
| "digits_value (c # cs) acc =
     (case digit_of c of None \<Rightarrow> None | Some d \<Rightarrow> digits_value cs (10 * acc + d))"

definition decimal_int :: "string \<Rightarrow> int option" where
  "decimal_int s =
     (if length s > 4300 then None
      else case s of
        [] \<Rightarrow> None
      | c # cs \<Rightarrow>
          if c = CHR ''-'' then
            (if cs = [] then None else map_option (\<lambda>n. - int n) (digits_value cs 0))
          else if c = CHR ''+'' then
            (if cs = [] then None else map_option int (digits_value cs 0))
          else map_option int (digits_value s 0))"

definition bool_word :: "string \<Rightarrow> bool option" where
  "bool_word s =
     (if ascii_lower s \<in> set [''0'', ''off'', ''f'', ''false'', ''n'', ''no''] then Some False
      else if ascii_lower s \<in> set [''1'', ''on'', ''t'', ''true'', ''y'', ''yes'']
      then Some True
      else None)"

text \<open>
  A home directory with three codecs, and a world whose configuration file sets the
  frequency and in which files can be created under \<open>/tmp/\<close>.
\<close>

definition example_env :: env where
  "example_env =
     \<lparr>home_app_path = ''/home/user/.tikva'',
      VideoCodecs = [''avc1'', ''hev1'', ''mp4v''],
      str_upper = ascii_upper,
      str_as_int = decimal_int,
      str_as_bool = bool_word\<rparr>"

definition example_world :: world where
  "example_world =
     \<lparr>files = [YAML_CONFIG_PATH example_env \<mapsto> Yaml (Mapping [(PStr ''freq'', PInt 60)])],
      writable = (\<lambda>path. startswith path ''/tmp/''),
      log = []\<rparr>"

section \<open>Properties\<close>

subsection \<open>The key normalizer\<close>

lemma startswith_rename_key: "startswith (rename_key e key) ''DEFAULT_''"
  by (simp add: rename_key_def startswith_def)

lemma rename_items_keys:
  "rename_items e d acc = Inr r \<Longrightarrow>
   fst ` set r = fst ` set acc \<union> rename_key e ` {key. PStr key \<in> fst ` set d}"
proof (induction e d acc rule: rename_items.induct)
  case (1 e acc)
  then show ?case by simp
next
  case (2 e key v rest acc)
  then have "fst ` set r =
      fst ` set (AList.update (rename_key e key) v acc) \<union>
      rename_key e ` {k. PStr k \<in> fst ` set rest}"
    by simp
  then show ?case
    by (auto simp: dom_update)
qed simp_all





lemma renamed_key_prefixed:
  "rename_keys_for_config e d = Inr r \<Longrightarrow> key \<in> fst ` set r \<Longrightarrow> startswith key ''DEFAULT_''"
proof -
  assume "rename_keys_for_config e d = Inr r" and key: "key \<in> fst ` set r"
  then have "fst ` set r = rename_key e ` {k. PStr k \<in> fst ` set d}"
    using rename_items_keys [of e d "[]" r] by (simp add: rename_keys_for_config_def)
  with key obtain k where "key = rename_key e k"
    by auto
  then show ?thesis
    by (simp add: startswith_rename_key)
qed

lemma renamed_lookup_unprefixed:
  "rename_keys_for_config e d = Inr r \<Longrightarrow> \<not> startswith name ''DEFAULT_'' \<Longrightarrow> map_of r name = None"
  by (meson map_of_eq_None_iff renamed_key_prefixed)

lemma rename_items_map_of:
  "rename_items e (map (\<lambda>(key, v). (PStr key, v)) items) acc = Inr r \<Longrightarrow>
   map_of r = map_of (rev (map (\<lambda>(key, v). (rename_key e key, v)) items) @ acc)"
proof (induction items arbitrary: acc)
  case Nil
  then show ?case by simp
next
  case (Cons item items)
  obtain key v where item: "item = (key, v)" by (cases item)
  from Cons.prems item
  have "map_of r =
      map_of (rev (map (\<lambda>(key, v). (rename_key e key, v)) items) @
        AList.update (rename_key e key) v acc)"
    by (intro Cons.IH) simp
  then show ?case
    using item by (simp add: update_conv' map_add_def fun_eq_iff split: option.splits)
qed

lemma rename_items_succeeds:
  "\<exists>r. rename_items e (map (\<lambda>(key, v). (PStr key, v)) items) acc = Inr r"
proof (induction items arbitrary: acc)
  case Nil
  then show ?case by simp
next
  case (Cons item items)
  then show ?case by (cases item) simp
qed



subsection \<open>The constructor\<close>

lemma validated_fields_cong:
  assumes "\<And>name. name \<in> set model_fields \<Longrightarrow> map_of d1 name = map_of d2 name"
  shows "validated_fields e d1 = validated_fields e d2"
  using assms by (simp add: validated_fields_def validate_field_def model_fields_def)

lemma validation_errors_cong:
  assumes "\<And>name. name \<in> set model_fields \<Longrightarrow> map_of d1 name = map_of d2 name"
  shows "validation_errors e d1 = validation_errors e d2"
  using assms by (simp add: validation_errors_def field_error_def model_fields_def)

lemma Configuration_init_cong:
  assumes "\<And>name. name \<in> set model_fields \<Longrightarrow> map_of d1 name = map_of d2 name"
  shows "Configuration_init e d1 = Configuration_init e d2"
  using validated_fields_cong [OF assms, of e] validation_errors_cong [OF assms, of e]
  by (simp add: Configuration_init_def split: option.splits)

lemma map_of_filter_keys:
  "map_of (filter (\<lambda>(key, v). key \<in> S) d) k = (if k \<in> S then map_of d k else None)"
  by (induction d) auto

lemma validate_field_None:
  "validate_field data name validator dflt = None \<longleftrightarrow> field_error data name validator = [name]"
  by (simp add: validate_field_def field_error_def split: option.splits)

lemma validate_field_Some:
  "validate_field data name validator dflt = Some x \<Longrightarrow> field_error data name validator = []"
  by (auto simp: validate_field_def field_error_def split: option.splits)

lemma validated_fields_Some:
  assumes "validated_fields e data = Some c"
  shows "validate_field data ''ENABLE_REALSENSE'' (validate_bool (str_as_bool e)) True
           = Some (ENABLE_REALSENSE c)"
    and "validate_field data ''ENABLE_CAMERAS'' (validate_bool (str_as_bool e)) True
           = Some (ENABLE_CAMERAS c)"
    and "validate_field data ''MAX_OPENCV_INDEX'' (validate_int (str_as_int e)) 10
           = Some (MAX_OPENCV_INDEX c)"
    and "validate_field data ''MAIN_CAMERA_ID''
           (validate_optional (validate_int (str_as_int e))) None = Some (MAIN_CAMERA_ID c)"
    and "validate_field data ''ENABLE_CAN'' (validate_bool (str_as_bool e)) False
           = Some (ENABLE_CAN c)"
    and "validate_field data ''MAX_CAN_INTERFACES'' (validate_int (str_as_int e)) 4
           = Some (MAX_CAN_INTERFACES c)"
    and "validate_field data ''DEFAULT_DATASET_NAME'' validate_str ''example_dataset''
           = Some (DEFAULT_DATASET_NAME c)"
    and "validate_field data ''DEFAULT_FREQ'' (validate_int (str_as_int e)) 30
           = Some (DEFAULT_FREQ c)"
    and "validate_field data ''DEFAULT_EPISODE_FORMAT'' (validate_literal EPISODE_FORMATS)
           ''lerobot_v2.1'' = Some (DEFAULT_EPISODE_FORMAT c)"
    and "validate_field data ''DEFAULT_VIDEO_CODEC'' (validate_literal (VideoCodecs e)) ''avc1''
           = Some (DEFAULT_VIDEO_CODEC c)"
    and "validate_field data ''DEFAULT_VIDEO_SIZE'' (validate_list_int (str_as_int e))
           [320, 240] = Some (DEFAULT_VIDEO_SIZE c)"
    and "validate_field data ''DEFAULT_TASK_INSTRUCTION'' validate_str ''None''
           = Some (DEFAULT_TASK_INSTRUCTION c)"
    and "validate_field data ''DEFAULT_CAMERAS_TO_DISABLE''
           (validate_optional (validate_list_int (str_as_int e))) None
           = Some (DEFAULT_CAMERAS_TO_DISABLE c)"
    and "validate_field data ''DEFAULT_CAMERAS_TO_RECORD''
           (validate_optional (validate_list_int (str_as_int e))) None
           = Some (DEFAULT_CAMERAS_TO_RECORD c)"
  using assms unfolding validated_fields_def
  by (auto simp: bind_eq_Some_conv)

lemma validated_fields_None:
  assumes "validated_fields e data = None"
  shows "validation_errors e data \<noteq> []"
  using assms unfolding validated_fields_def validation_errors_def
  by (auto simp: bind_eq_None_conv validate_field_None dest: validate_field_Some)

lemma Configuration_init_Inr:
  "Configuration_init e data = Inr c \<longleftrightarrow> validated_fields e data = Some c"
  by (simp add: Configuration_init_def split: option.splits)

lemma Configuration_init_Inl:
  "Configuration_init e data = Inl err \<longleftrightarrow>
   validated_fields e data = None \<and> err = ValidationError (validation_errors e data)"
  by (auto simp: Configuration_init_def split: option.splits)

lemma Configuration_init_fields:
  "Configuration_init e data = Inr c \<Longrightarrow> validated_fields e data = Some c"
  by (simp add: Configuration_init_Inr)

lemma unprefixed_field_default:
  "rename_keys_for_config e d = Inr r \<Longrightarrow> \<not> startswith name ''DEFAULT_'' \<Longrightarrow>
   validate_field r name validator dflt = Some dflt"
  by (simp add: validate_field_def renamed_lookup_unprefixed)

lemma renamed_camera_robot_defaults:
  assumes "rename_keys_for_config e d = Inr r" and "Configuration_init e r = Inr c"
  shows "ENABLE_REALSENSE c = True \<and> ENABLE_CAMERAS c = True \<and> MAX_OPENCV_INDEX c = 10 \<and>
         MAIN_CAMERA_ID c = None \<and> ENABLE_CAN c = False \<and> MAX_CAN_INTERFACES c = 4"
proof -
  note fields = validated_fields_Some [OF Configuration_init_fields [OF assms(2)]]
  note dflt = unprefixed_field_default [OF assms(1)]
  have "ENABLE_REALSENSE c = True"
    using fields(1) dflt [of "''ENABLE_REALSENSE''" "validate_bool (str_as_bool e)" True]
    by (simp add: startswith_def)
  moreover have "ENABLE_CAMERAS c = True"
    using fields(2) dflt [of "''ENABLE_CAMERAS''" "validate_bool (str_as_bool e)" True]
    by (simp add: startswith_def)
  moreover have "MAX_OPENCV_INDEX c = 10"
    using fields(3) dflt [of "''MAX_OPENCV_INDEX''" "validate_int (str_as_int e)" 10]
    by (simp add: startswith_def)
  moreover have "MAIN_CAMERA_ID c = None"
    using fields(4)
      dflt [of "''MAIN_CAMERA_ID''" "validate_optional (validate_int (str_as_int e))" None]
    by (simp add: startswith_def)
  moreover have "ENABLE_CAN c = False"
    using fields(5) dflt [of "''ENABLE_CAN''" "validate_bool (str_as_bool e)" False]
    by (simp add: startswith_def)
  moreover have "MAX_CAN_INTERFACES c = 4"
    using fields(6) dflt [of "''MAX_CAN_INTERFACES''" "validate_int (str_as_int e)" 4]
    by (simp add: startswith_def)
  ultimately show ?thesis by simp
qed

lemma mem_field_error:
  "x \<in> set (field_error data name validator) \<longleftrightarrow>
   x = name \<and> (\<exists>v. map_of data name = Some v \<and> validator v = None)"
proof (cases "map_of data name")
  case None
  then show ?thesis by (simp add: field_error_def)
next
  case (Some v)
  then show ?thesis by (cases "validator v") (simp_all add: field_error_def)
qed

lemma int_field_errors:
  "''DEFAULT_FREQ'' \<in> set (validation_errors e data) \<longleftrightarrow>
     (\<exists>v. map_of data ''DEFAULT_FREQ'' = Some v \<and> validate_int (str_as_int e) v = None)"
  "''MAX_OPENCV_INDEX'' \<in> set (validation_errors e data) \<longleftrightarrow>
     (\<exists>v. map_of data ''MAX_OPENCV_INDEX'' = Some v \<and> validate_int (str_as_int e) v = None)"
  "''MAX_CAN_INTERFACES'' \<in> set (validation_errors e data) \<longleftrightarrow>
     (\<exists>v. map_of data ''MAX_CAN_INTERFACES'' = Some v \<and> validate_int (str_as_int e) v = None)"
  by (simp_all add: validation_errors_def mem_field_error)


lemma from_loaded_Inr:
  assumes "fst (from_loaded e config w) = Inr c"
  shows "\<exists>d r. rename_keys_for_config e d = Inr r \<and> Configuration_init e r = Inr c"
  using assms by (auto simp: from_loaded_def Let_def split: sum.splits)

lemma from_yaml_Inr:
  assumes "fst (from_yaml e config_path w) = Inr c"
  shows "\<exists>d r. rename_keys_for_config e d = Inr r \<and> Configuration_init e r = Inr c"
proof -
  have empty: "rename_keys_for_config e [] = Inr []"
    by (simp add: rename_keys_for_config_def)
  show ?thesis
    using assms empty from_loaded_Inr [of e _ _ c]
    by (auto simp: from_yaml_def Let_def
        split: option.splits sum.splits error.splits if_splits)
qed

subsection \<open>The saver\<close>



section \<open>The claims\<close>

subsection \<open>C1: a rejected save changes nothing\<close>

text \<open>
  C1. When the renamed form of the proposed settings fails validation (for example a value
  outside an enumerated field's allowed set), \<open>save_user_settings\<close> leaves the instance
  and every file as they were and returns normally; the failure only shows as one more
  entry of the log.
\<close>

theorem save_rejected_changes_nothing:
  assumes "rename_keys_for_config e user_settings = Inr renamed"
    and "Configuration_init e renamed = Inl err"
  shows "fst (save_user_settings e self user_settings w) = self \<and>
         files (snd (save_user_settings e self user_settings w)) = files w \<and>
         log (snd (save_user_settings e self user_settings w)) = log w @ [ErrorSaving err]"
  using assms by (simp add: save_user_settings_def)

theorem save_rejected_changes_nothing_witness:
  "rename_keys_for_config example_env [(PStr ''episode_format'', PStr ''xml'')]
     = Inr [(''DEFAULT_EPISODE_FORMAT'', PStr ''xml'')] \<and>
   Configuration_init example_env [(''DEFAULT_EPISODE_FORMAT'', PStr ''xml'')]
     = Inl (ValidationError [''DEFAULT_EPISODE_FORMAT'']) \<and>
   fst (save_user_settings example_env (defaults\<lparr>DEFAULT_FREQ := 60\<rparr>)
          [(PStr ''episode_format'', PStr ''xml'')] example_world)
     = defaults\<lparr>DEFAULT_FREQ := 60\<rparr> \<and>
   files (snd (save_user_settings example_env (defaults\<lparr>DEFAULT_FREQ := 60\<rparr>)
          [(PStr ''episode_format'', PStr ''xml'')] example_world))
     = files example_world \<and>
   log (snd (save_user_settings example_env (defaults\<lparr>DEFAULT_FREQ := 60\<rparr>)
          [(PStr ''episode_format'', PStr ''xml'')] example_world))
     = [ErrorSaving (ValidationError [''DEFAULT_EPISODE_FORMAT''])]"
proof -
  have renamed: "rename_keys_for_config example_env [(PStr ''episode_format'', PStr ''xml'')]
      = Inr [(''DEFAULT_EPISODE_FORMAT'', PStr ''xml'')]"
    by code_simp
  have rejected: "Configuration_init example_env [(''DEFAULT_EPISODE_FORMAT'', PStr ''xml'')]
      = Inl (ValidationError [''DEFAULT_EPISODE_FORMAT''])"
    by code_simp
  show ?thesis
    using save_rejected_changes_nothing
        [OF renamed rejected, of "defaults\<lparr>DEFAULT_FREQ := 60\<rparr>" example_world]
      renamed rejected
    by (simp add: example_world_def)
qed

subsection \<open>C2: an accepted save replaces every field\<close>




subsection \<open>C3: the loader and invalid contents\<close>

text \<open>
  C3. The loader does raise: a file that sets the frequency to a word makes the
  constructor's \<open>ValidationError\<close> leave \<open>from_yaml\<close>, and a file with an integer key
  makes the \<open>AttributeError\<close> of the renaming leave it. The saver, given the same
  settings, catches the error and returns.
\<close>

theorem from_yaml_raises_on_invalid_value:
  "fst (from_yaml example_env (Some ''/tmp/config.yaml'')
         \<lparr>files = [''/tmp/config.yaml'' \<mapsto> Yaml (Mapping [(PStr ''freq'', PStr ''abc'')])],
          writable = (\<lambda>path. True), log = []\<rparr>)
     = Inl (ValidationError [''DEFAULT_FREQ'']) \<and>
   fst (from_yaml example_env (Some ''/tmp/config.yaml'')
         \<lparr>files = [''/tmp/config.yaml'' \<mapsto> Yaml (Mapping [(PInt 1, PInt 2)])],
          writable = (\<lambda>path. True), log = []\<rparr>)
     = Inl AttributeError \<and>
   fst (save_user_settings example_env defaults [(PStr ''freq'', PStr ''abc'')] example_world)
     = defaults"
  by code_simp

subsection \<open>C4: what an accepted save writes\<close>




subsection \<open>C5: the integer fields\<close>

text \<open>
  C5 as stated says that a non-positive frequency is rejected (and likewise a negative
  probe index and a count of CAN interfaces below one). The fields are declared as plain
  \<open>int\<close>, and such values are accepted.
\<close>

theorem nonpositive_frequency_accepted:
  "Configuration_init example_env
     [(''DEFAULT_FREQ'', PInt (- 5)), (''MAX_OPENCV_INDEX'', PInt (- 1)),
      (''MAX_CAN_INTERFACES'', PInt 0)]
   = Inr (defaults\<lparr>MAX_OPENCV_INDEX := - 1, MAX_CAN_INTERFACES := 0, DEFAULT_FREQ := - 5\<rparr>)"
  by code_simp

text \<open>
  C5, amended. Every integer validates as \<open>int\<close>, whatever its sign, and the three
  integer fields take any three integers. For each of the three fields with a value
  supplied under its name: when the value does not validate as an integer, the
  construction fails and the error names the field; when it does, and so whenever it is
  an integer, the field of a constructed instance is that integer and no error of the
  construction names the field.
\<close>

theorem int_field_validation:
  assumes "(name, field) \<in> {(''DEFAULT_FREQ'', DEFAULT_FREQ),
             (''MAX_OPENCV_INDEX'', MAX_OPENCV_INDEX),
             (''MAX_CAN_INTERFACES'', MAX_CAN_INTERFACES)}"
    and "map_of data name = Some v"
  shows "(\<forall>i. validate_int (str_as_int e) (PInt i) = Some i) \<and>
         (\<forall>i j k.
            Configuration_init e
              [(''DEFAULT_FREQ'', PInt i), (''MAX_OPENCV_INDEX'', PInt j),
               (''MAX_CAN_INTERFACES'', PInt k)]
            = Inr (defaults\<lparr>MAX_OPENCV_INDEX := j, MAX_CAN_INTERFACES := k,
                DEFAULT_FREQ := i\<rparr>)) \<and>
         (\<forall>i. v = PInt i \<longrightarrow>
            (\<forall>c. Configuration_init e data = Inr c \<longrightarrow> field c = i) \<and>
            (\<forall>errs. Configuration_init e data = Inl (ValidationError errs)
               \<longrightarrow> name \<notin> set errs)) \<and>
         (case validate_int (str_as_int e) v of
            None \<Rightarrow>
              \<exists>errs. Configuration_init e data = Inl (ValidationError errs) \<and> name \<in> set errs
          | Some i \<Rightarrow>
              (\<forall>c. Configuration_init e data = Inr c \<longrightarrow> field c = i) \<and>
              (\<forall>errs. Configuration_init e data = Inl (ValidationError errs)
                 \<longrightarrow> name \<notin> set errs))"
proof -
  have errs:
    "name \<in> set (validation_errors e data) \<longleftrightarrow> validate_int (str_as_int e) v = None"
    using assms by (auto simp: int_field_errors)
  have field: "validate_int (str_as_int e) v = Some (field c)"
    if "validated_fields e data = Some c" for c
    using assms validated_fields_Some(3,6,8) [OF that]
    by (auto simp: validate_field_def)
  have by_outcome:
    "case validate_int (str_as_int e) v of
       None \<Rightarrow>
         \<exists>errs. Configuration_init e data = Inl (ValidationError errs) \<and> name \<in> set errs
     | Some i \<Rightarrow>
         (\<forall>c. Configuration_init e data = Inr c \<longrightarrow> field c = i) \<and>
         (\<forall>errs. Configuration_init e data = Inl (ValidationError errs)
            \<longrightarrow> name \<notin> set errs)"
  proof (cases "validate_int (str_as_int e) v")
    case None
    with field have "validated_fields e data = None"
      by (cases "validated_fields e data") auto
    with None errs show ?thesis
      by (simp add: Configuration_init_def)
  next
    case (Some i)
    with field errs show ?thesis
      by (auto simp: Configuration_init_Inr Configuration_init_Inl)
  qed
  have int_valid: "validate_int (str_as_int e) (PInt i) = Some i" for i
    by simp
  have three: "Configuration_init e
      [(''DEFAULT_FREQ'', PInt i), (''MAX_OPENCV_INDEX'', PInt j),
       (''MAX_CAN_INTERFACES'', PInt k)]
    = Inr (defaults\<lparr>MAX_OPENCV_INDEX := j, MAX_CAN_INTERFACES := k, DEFAULT_FREQ := i\<rparr>)"
    for i j k
    by (simp add: Configuration_init_def validated_fields_def validate_field_def defaults_def)
  have an_int: "(\<forall>c. Configuration_init e data = Inr c \<longrightarrow> field c = i) \<and>
      (\<forall>errs. Configuration_init e data = Inl (ValidationError errs) \<longrightarrow> name \<notin> set errs)"
    if "v = PInt i" for i
    using by_outcome that by simp
  show ?thesis
    using int_valid three an_int by_outcome by blast
qed

theorem int_field_validation_witness:
  "map_of [(''DEFAULT_FREQ'', PInt (- 5))] ''DEFAULT_FREQ'' = Some (PInt (- 5)) \<and>
   validate_int (str_as_int example_env) (PInt (- 5)) = Some (- 5) \<and>
   Configuration_init example_env [(''DEFAULT_FREQ'', PInt (- 5))]
     = Inr (defaults\<lparr>DEFAULT_FREQ := - 5\<rparr>) \<and>
   DEFAULT_FREQ (defaults\<lparr>DEFAULT_FREQ := - 5\<rparr>) = - 5 \<and>
   Configuration_init example_env
     [(''DEFAULT_FREQ'', PInt (- 1000000)), (''MAX_OPENCV_INDEX'', PInt (- 7)),
      (''MAX_CAN_INTERFACES'', PInt (- 3))]
     = Inr (defaults\<lparr>MAX_OPENCV_INDEX := - 7, MAX_CAN_INTERFACES := - 3,
         DEFAULT_FREQ := - 1000000\<rparr>) \<and>
   map_of [(''DEFAULT_FREQ'', PStr ''fast'')] ''DEFAULT_FREQ'' = Some (PStr ''fast'') \<and>
   validate_int (str_as_int example_env) (PStr ''fast'') = None \<and>
   Configuration_init example_env [(''DEFAULT_FREQ'', PStr ''fast'')]
     = Inl (ValidationError [''DEFAULT_FREQ'']) \<and>
   ''DEFAULT_FREQ'' \<in> set [''DEFAULT_FREQ'']"
proof -
  have accepted: "Configuration_init example_env [(''DEFAULT_FREQ'', PInt (- 5))]
      = Inr (defaults\<lparr>DEFAULT_FREQ := - 5\<rparr>)"
    by code_simp
  have not_int: "validate_int (str_as_int example_env) (PStr ''fast'') = None"
    by code_simp
  have rejected: "Configuration_init example_env [(''DEFAULT_FREQ'', PStr ''fast'')]
      = Inl (ValidationError [''DEFAULT_FREQ''])"
    by code_simp
  note at_int = int_field_validation [of "''DEFAULT_FREQ''" DEFAULT_FREQ
      "[(''DEFAULT_FREQ'', PInt (- 5))]" "PInt (- 5)" example_env]
  note at_word = int_field_validation [of "''DEFAULT_FREQ''" DEFAULT_FREQ
      "[(''DEFAULT_FREQ'', PStr ''fast'')]" "PStr ''fast''" example_env]
  have three: "Configuration_init example_env
     [(''DEFAULT_FREQ'', PInt (- 1000000)), (''MAX_OPENCV_INDEX'', PInt (- 7)),
      (''MAX_CAN_INTERFACES'', PInt (- 3))]
     = Inr (defaults\<lparr>MAX_OPENCV_INDEX := - 7, MAX_CAN_INTERFACES := - 3,
         DEFAULT_FREQ := - 1000000\<rparr>)"
    using at_int by simp
  show ?thesis
    using at_int at_word three accepted not_int rejected
    by simp
qed

subsection \<open>C6: the renaming of keys\<close>

text \<open>
  C6 as stated says that a key that already carries the prefix is uppercased. Such a key
  is returned as it is.
\<close>

theorem rename_leaves_prefixed_key:
  "rename_keys_for_config example_env [(PStr ''DEFAULT_freq'', PInt 60)]
     = Inr [(''DEFAULT_freq'', PInt 60)] \<and>
   str_upper example_env ''DEFAULT_freq'' = ''DEFAULT_FREQ'' \<and>
   ''DEFAULT_freq'' \<noteq> ''DEFAULT_FREQ''"
  by code_simp

text \<open>
  C6, amended. On a dictionary whose keys are strings the renaming succeeds; the keys of
  the result are the renamed keys of the input, where a key without the prefix becomes the
  prefix followed by \<open>key.upper()\<close> (whatever \<open>str.upper\<close> makes of the key) and a key
  with the prefix stays unchanged; and each renamed key holds the value of the last input
  item renamed to it.
\<close>

theorem rename_keys_for_config_keys:
  assumes "config_dict = map (\<lambda>(key, v). (PStr key, v)) items"
  shows "\<exists>renamed.
           rename_keys_for_config e config_dict = Inr renamed \<and>
           fst ` set renamed = rename_key e ` fst ` set items \<and>
           map_of renamed = map_of (rev (map (\<lambda>(key, v). (rename_key e key, v)) items)) \<and>
           (\<forall>key \<in> fst ` set items.
              rename_key e key =
                (if startswith key ''DEFAULT_'' then key else ''DEFAULT_'' @ str_upper e key))"
proof -
  obtain renamed where renamed: "rename_keys_for_config e config_dict = Inr renamed"
    using rename_items_succeeds [of e items "[]"] assms
    by (auto simp: rename_keys_for_config_def)
  have "fst ` set renamed = rename_key e ` {key. PStr key \<in> fst ` set config_dict}"
    using rename_items_keys [of e config_dict "[]" renamed] renamed
    by (simp add: rename_keys_for_config_def)
  moreover have "{key. PStr key \<in> fst ` set config_dict} = fst ` set items"
    using assms by force
  moreover have "map_of renamed = map_of (rev (map (\<lambda>(key, v). (rename_key e key, v)) items))"
    using rename_items_map_of [of e items "[]" renamed] renamed assms
    by (simp add: rename_keys_for_config_def)
  ultimately show ?thesis
    using renamed by (simp add: rename_key_def)
qed

theorem rename_keys_for_config_keys_witness:
  "[(PStr ''freq'', PInt 60), (PStr ''DEFAULT_freq'', PInt 1)]
     = map (\<lambda>(key, v). (PStr key, v)) [(''freq'', PInt 60), (''DEFAULT_freq'', PInt 1)] \<and>
   rename_keys_for_config example_env [(PStr ''freq'', PInt 60), (PStr ''DEFAULT_freq'', PInt 1)]
     = Inr [(''DEFAULT_FREQ'', PInt 60), (''DEFAULT_freq'', PInt 1)] \<and>
   rename_key example_env ''freq'' = ''DEFAULT_'' @ str_upper example_env ''freq'' \<and>
   rename_key example_env ''DEFAULT_freq'' = ''DEFAULT_freq''"
proof -
  have renamed:
    "rename_keys_for_config example_env [(PStr ''freq'', PInt 60), (PStr ''DEFAULT_freq'', PInt 1)]
      = Inr [(''DEFAULT_FREQ'', PInt 60), (''DEFAULT_freq'', PInt 1)]"
    by code_simp
  have prefixed: "\<not> startswith ''freq'' ''DEFAULT_''" "startswith ''DEFAULT_freq'' ''DEFAULT_''"
    by (simp_all add: startswith_def)
  show ?thesis
    using rename_keys_for_config_keys
        [where config_dict = "[(PStr ''freq'', PInt 60), (PStr ''DEFAULT_freq'', PInt 1)]"
          and items = "[(''freq'', PInt 60), (''DEFAULT_freq'', PInt 1)]" and e = example_env]
      renamed prefixed
    by simp
qed

subsection \<open>C7: the camera and robot fields\<close>

text \<open>
  C7. Every key of a renamed mapping starts with the prefix, so none is the name of a
  camera or robot field; and whenever the loader returns an instance, its camera and robot
  fields hold their declared defaults.
\<close>

theorem camera_robot_fields_never_set:
  "(\<forall>renamed key. rename_keys_for_config e config_dict = Inr renamed \<longrightarrow>
      key \<in> fst ` set renamed \<longrightarrow>
      startswith key ''DEFAULT_'' \<and>
      key \<notin> {''ENABLE_REALSENSE'', ''ENABLE_CAMERAS'', ''MAX_OPENCV_INDEX'', ''MAIN_CAMERA_ID'',
        ''ENABLE_CAN'', ''MAX_CAN_INTERFACES''}) \<and>
   (\<forall>c. fst (from_yaml e config_path w) = Inr c \<longrightarrow>
      ENABLE_REALSENSE c = True \<and> ENABLE_CAMERAS c = True \<and> MAX_OPENCV_INDEX c = 10 \<and>
      MAIN_CAMERA_ID c = None \<and> ENABLE_CAN c = False \<and> MAX_CAN_INTERFACES c = 4)"
proof (intro conjI allI impI)
  fix renamed key
  assume "rename_keys_for_config e config_dict = Inr renamed" and "key \<in> fst ` set renamed"
  then show "startswith key ''DEFAULT_''"
    by (rule renamed_key_prefixed)
  then show "key \<notin> {''ENABLE_REALSENSE'', ''ENABLE_CAMERAS'', ''MAX_OPENCV_INDEX'',
      ''MAIN_CAMERA_ID'', ''ENABLE_CAN'', ''MAX_CAN_INTERFACES''}"
    by (auto simp: startswith_def)
next
  fix c
  assume "fst (from_yaml e config_path w) = Inr c"
  then obtain d r where "rename_keys_for_config e d = Inr r" and "Configuration_init e r = Inr c"
    using from_yaml_Inr by blast
  then have fields: "ENABLE_REALSENSE c = True \<and> ENABLE_CAMERAS c = True \<and>
      MAX_OPENCV_INDEX c = 10 \<and> MAIN_CAMERA_ID c = None \<and> ENABLE_CAN c = False \<and>
      MAX_CAN_INTERFACES c = 4"
    by (rule renamed_camera_robot_defaults)
  from fields show "ENABLE_REALSENSE c = True" by simp
  from fields show "ENABLE_CAMERAS c = True" by simp
  from fields show "MAX_OPENCV_INDEX c = 10" by simp
  from fields show "MAIN_CAMERA_ID c = None" by simp
  from fields show "ENABLE_CAN c = False" by simp
  from fields show "MAX_CAN_INTERFACES c = 4" by simp
qed

theorem camera_robot_fields_never_set_witness:
  "rename_keys_for_config example_env [(PStr ''enable_can'', PBool True)]
     = Inr [(''DEFAULT_ENABLE_CAN'', PBool True)] \<and>
   ''DEFAULT_ENABLE_CAN'' \<in> fst ` set [(''DEFAULT_ENABLE_CAN'', PBool True)] \<and>
   startswith ''DEFAULT_ENABLE_CAN'' ''DEFAULT_'' \<and>
   ''DEFAULT_ENABLE_CAN'' \<noteq> ''ENABLE_CAN'' \<and>
   fst (from_yaml example_env (Some ''/tmp/config.yaml'')
         \<lparr>files = [''/tmp/config.yaml'' \<mapsto>
            Yaml (Mapping [(PStr ''enable_can'', PBool True),
              (PStr ''max_can_interfaces'', PInt 8), (PStr ''freq'', PInt 60)])],
          writable = (\<lambda>path. True), log = []\<rparr>)
     = Inr (defaults\<lparr>DEFAULT_FREQ := 60\<rparr>) \<and>
   ENABLE_CAN (defaults\<lparr>DEFAULT_FREQ := 60\<rparr>) = False \<and>
   MAX_CAN_INTERFACES (defaults\<lparr>DEFAULT_FREQ := 60\<rparr>) = 4"
proof -
  have renamed: "rename_keys_for_config example_env [(PStr ''enable_can'', PBool True)]
      = Inr [(''DEFAULT_ENABLE_CAN'', PBool True)]"
    by code_simp
  have loaded: "fst (from_yaml example_env (Some ''/tmp/config.yaml'')
         \<lparr>files = [''/tmp/config.yaml'' \<mapsto>
            Yaml (Mapping [(PStr ''enable_can'', PBool True),
              (PStr ''max_can_interfaces'', PInt 8), (PStr ''freq'', PInt 60)])],
          writable = (\<lambda>path. True), log = []\<rparr>)
      = Inr (defaults\<lparr>DEFAULT_FREQ := 60\<rparr>)"
    by code_simp
  show ?thesis
    using camera_robot_fields_never_set [of example_env "[(PStr ''enable_can'', PBool True)]"
        "Some ''/tmp/config.yaml''"
        "\<lparr>files = [''/tmp/config.yaml'' \<mapsto>
            Yaml (Mapping [(PStr ''enable_can'', PBool True),
              (PStr ''max_can_interfaces'', PInt 8), (PStr ''freq'', PInt 60)])],
          writable = (\<lambda>path. True), log = []\<rparr>"]
      renamed loaded
    by auto
qed

subsection \<open>C8: unknown keys\<close>

text \<open>
  C8. The constructor gives the same result (the same instance, or the same error) on a
  mapping and on its restriction to the names of the model's fields.
\<close>

theorem extra_keys_ignored:
  "Configuration_init e data =
   Configuration_init e (filter (\<lambda>(key, v). key \<in> set model_fields) data)"
  by (rule Configuration_init_cong) (simp add: map_of_filter_keys)

subsection \<open>C9: loading when no file exists\<close>




subsection \<open>C10: saving, then loading\<close>




end
